theory Spec2Isabelle
  imports Main "HOL-Library.Word"
begin

section \<open>Values of the submitted dictionary\<close>

text \<open>
  \<open>submit_pass_data\<close> reads its argument only through \<open>dict.get\<close>. An entry of a
  dictionary is therefore one of: the key is absent, the value is \<open>None\<close>, the value
  is a string. Strings are lists of bytes (the UTF-8 encoding of the Python string),
  so emptiness and equality are those of the Python string.
\<close>

datatype pyval = Absent | PyNone | PyStr string

text \<open>\<open>d.get(k)\<close>: an absent key reads as \<open>None\<close>.\<close>

definition py_get :: "pyval \<Rightarrow> pyval" where
  "py_get v = (case v of Absent \<Rightarrow> PyNone | _ \<Rightarrow> v)"

text \<open>\<open>d.get(k, '')\<close>: an absent key reads as the default, a stored \<open>None\<close> stays.\<close>

definition py_get_default :: "pyval \<Rightarrow> string \<Rightarrow> pyval" where
  "py_get_default v d = (case v of Absent \<Rightarrow> PyStr d | _ \<Rightarrow> v)"

text \<open>Python's truth value, as \<open>all([...])\<close> and \<open>not x\<close> use it.\<close>

definition truthy :: "pyval \<Rightarrow> bool" where
  "truthy v = (case v of PyStr s \<Rightarrow> s \<noteq> [] | _ \<Rightarrow> False)"

text \<open>What the driver sends for a parameter: \<open>None\<close> is SQL \<open>NULL\<close>.\<close>

definition sql_text :: "pyval \<Rightarrow> string option" where
  "sql_text v = (case v of PyStr s \<Rightarrow> Some s | _ \<Rightarrow> None)"

record user_data =
  ud_email :: pyval
  ud_phone :: pyval
  ud_fam :: pyval
  ud_name :: pyval
  ud_otc :: pyval

record coords_data =
  cd_latitude :: pyval
  cd_longitude :: pyval
  cd_height :: pyval

record level_data =
  ld_winter :: pyval
  ld_spring :: pyval
  ld_summer :: pyval
  ld_autumn :: pyval

record image_data =
  id_title :: pyval
  id_data :: pyval

text \<open>
  The sub-objects \<open>user\<close>, \<open>coords\<close>, \<open>level\<close> and \<open>images\<close> are dictionaries (a list
  of dictionaries) when present; \<open>None\<close> stands for an absent key, which the code
  replaces by \<open>{}\<close> (by \<open>[]\<close>).
\<close>

record pass_data =
  pd_beauty_title :: pyval
  pd_title :: pyval
  pd_other_titles :: pyval
  pd_connect :: pyval
  pd_add_time :: pyval
  pd_user :: "user_data option"
  pd_coords :: "coords_data option"
  pd_level :: "level_data option"
  pd_images :: "image_data list option"

definition empty_user :: user_data where
  "empty_user = \<lparr>ud_email = Absent, ud_phone = Absent, ud_fam = Absent,
     ud_name = Absent, ud_otc = Absent\<rparr>"

definition empty_coords :: coords_data where
  "empty_coords = \<lparr>cd_latitude = Absent, cd_longitude = Absent, cd_height = Absent\<rparr>"

definition empty_level :: level_data where
  "empty_level = \<lparr>ld_winter = Absent, ld_spring = Absent, ld_summer = Absent,
     ld_autumn = Absent\<rparr>"

section \<open>Numeric parsing\<close>

text \<open>
  \<open>float(x)\<close> and \<open>int(x)\<close> are built-ins of the language. Their grammar is not part
  of the repository, so it is a parameter: \<open>float_parses s\<close> says that \<open>float(s)\<close>
  returns, \<open>int_parse s\<close> is the result of \<open>int(s)\<close> when it returns. The float that
  is stored is kept symbolically, by the argument it was built from.
\<close>

record parsers =
  float_parses :: "string \<Rightarrow> bool"
  int_parse :: "string \<Rightarrow> int option"

datatype pyfloat = Float_of_int int | Float_of_str string

datatype exn = ValueError | TypeError | Base64Error

text \<open>\<open>float(coords.get(k, 0))\<close>: the default is the integer 0.\<close>

definition py_float :: "parsers \<Rightarrow> pyval \<Rightarrow> exn + pyfloat" where
  "py_float lib v = (case v of
       Absent \<Rightarrow> Inr (Float_of_int 0)
     | PyNone \<Rightarrow> Inl TypeError
     | PyStr s \<Rightarrow> if float_parses lib s then Inr (Float_of_str s) else Inl ValueError)"

definition py_int :: "parsers \<Rightarrow> pyval \<Rightarrow> exn + int" where
  "py_int lib v = (case v of
       Absent \<Rightarrow> Inr 0
     | PyNone \<Rightarrow> Inl TypeError
     | PyStr s \<Rightarrow> (case int_parse lib s of None \<Rightarrow> Inl ValueError | Some n \<Rightarrow> Inr n))"

section \<open>The store and the connection\<close>

type_synonym byte = "8 word"

record user_row =
  user_id :: int
  user_email :: string
  user_phone :: string
  user_fam :: string
  user_name :: string
  user_otc :: string

record pass_row =
  pass_id :: int
  pass_beauty_title :: "string option"
  pass_title :: string
  pass_other_titles :: "string option"
  pass_connect :: "string option"
  pass_add_time :: string
  pass_user_id :: int
  pass_latitude :: pyfloat
  pass_longitude :: pyfloat
  pass_height :: int
  pass_status :: string

record difficulty_row =
  dl_pass_id :: int
  dl_winter :: "string option"
  dl_spring :: "string option"
  dl_summer :: "string option"
  dl_autumn :: "string option"

record image_row =
  im_pass_id :: int
  im_title :: "string option"
  im_data :: "byte list"

text \<open>\<open>self.connection\<close>: \<open>None\<close>, an open connection, or a connection that was closed.\<close>

datatype conn = NoConnection | ConnOpen | ConnClosed

text \<open>The calls made on the \<open>Database\<close> object and on its connection, in order.\<close>

datatype call = Connect | CreateUser | CreatePass | CreateDifficultyLevel | CreateImage
  | Close

text \<open>
  Modelled from the spec: the schema of the four tables is not under src/. The spec
  gives \<open>users.email\<close> as unique and the \<open>id\<close> columns of \<open>users\<close> and \<open>passes\<close> as
  server-assigned identities; each is drawn here from a counter of its own, which
  a successful insert advances.
\<close>

record world =
  users :: "user_row list"
  passes :: "pass_row list"
  difficulty_levels :: "difficulty_row list"
  images :: "image_row list"
  users_id_seq :: int
  passes_id_seq :: int
  connection :: conn
  calls :: "call list"

text \<open>
  What the environment does to one statement. The code tells two classes of database
  error apart: \<open>psycopg2.IntegrityError\<close> and every other \<open>psycopg2.Error\<close>. A
  statement and its commit succeed or fail as one unit; rollback and close do not fail.
\<close>

datatype db_fault = IntegrityError | DatabaseError

record env =
  connect_fails :: bool
  user_insert_fault :: "db_fault option"
  pass_insert_fault :: "db_fault option"
  difficulty_fault :: "db_fault option"
  image_faults :: "db_fault option list"

definition log_call :: "call \<Rightarrow> world \<Rightarrow> world" where
  "log_call c w = w\<lparr>calls := calls w @ [c]\<rparr>"

definition MAX_IMAGE_SIZE :: nat where
  "MAX_IMAGE_SIZE = 5 * 1024 * 1024"

section \<open>The methods of Database\<close>

definition connect :: "bool \<Rightarrow> world \<Rightarrow> bool \<times> world" where
  "connect fails w =
     (if fails then (False, log_call Connect w)
      else (True, (log_call Connect w)\<lparr>connection := ConnOpen\<rparr>))"

definition disconnect :: "world \<Rightarrow> world" where
  "disconnect w =
     (if connection w \<noteq> NoConnection then (log_call Close w)\<lparr>connection := ConnClosed\<rparr>
      else w)"

text \<open>
  \<open>execute_query\<close>: the statement is a change of the store; a database error rolls
  back and gives \<open>False\<close>.
\<close>

definition execute_query :: "db_fault option \<Rightarrow> (world \<Rightarrow> world) \<Rightarrow> world \<Rightarrow> bool \<times> world" where
  "execute_query fault stmt w =
     (case fault of None \<Rightarrow> (True, stmt w) | Some e \<Rightarrow> (False, w))"

text \<open>\<open>SELECT id FROM users WHERE email = %s\<close> followed by \<open>fetchone\<close>.\<close>

definition select_user_id :: "world \<Rightarrow> string \<Rightarrow> int option" where
  "select_user_id w email =
     (case find (\<lambda>r. user_email r = email) (users w) of
        None \<Rightarrow> None | Some r \<Rightarrow> Some (user_id r))"

definition insert_user :: "string \<Rightarrow> string \<Rightarrow> string \<Rightarrow> string \<Rightarrow> string \<Rightarrow> world \<Rightarrow> world" where
  "insert_user email phone fam name otc w =
     w\<lparr>users := users w @ [\<lparr>user_id = users_id_seq w, user_email = email,
            user_phone = phone, user_fam = fam, user_name = name, user_otc = otc\<rparr>],
       users_id_seq := users_id_seq w + 1\<rparr>"

text \<open>
  \<open>create_user\<close>: the insert raises \<open>IntegrityError\<close> when a row with this email exists
  (the unique constraint) or when the environment says so (any other constraint);
  the handler then looks the email up. Any other database error gives \<open>None\<close>.
\<close>

definition create_user ::
  "db_fault option \<Rightarrow> world \<Rightarrow> string \<Rightarrow> string \<Rightarrow> string \<Rightarrow> string \<Rightarrow> string \<Rightarrow> int option \<times> world" where
  "create_user fault w0 email phone fam name otc =
     (let w = log_call CreateUser w0 in
      case fault of
        Some DatabaseError \<Rightarrow> (None, w)
      | Some IntegrityError \<Rightarrow> (select_user_id w email, w)
      | None \<Rightarrow>
          if \<exists>r \<in> set (users w). user_email r = email
          then (select_user_id w email, w)
          else (Some (users_id_seq w), insert_user email phone fam name otc w))"

definition insert_pass ::
  "string option \<Rightarrow> string \<Rightarrow> string option \<Rightarrow> string option \<Rightarrow> string \<Rightarrow> int \<Rightarrow>
   pyfloat \<Rightarrow> pyfloat \<Rightarrow> int \<Rightarrow> world \<Rightarrow> world" where
  "insert_pass beauty_title title other_titles connect_txt add_time uid latitude longitude
     height w =
     w\<lparr>passes := passes w @ [\<lparr>pass_id = passes_id_seq w, pass_beauty_title = beauty_title,
            pass_title = title, pass_other_titles = other_titles,
            pass_connect = connect_txt, pass_add_time = add_time, pass_user_id = uid,
            pass_latitude = latitude, pass_longitude = longitude, pass_height = height,
            pass_status = ''new''\<rparr>],
       passes_id_seq := passes_id_seq w + 1\<rparr>"

definition create_pass ::
  "db_fault option \<Rightarrow> world \<Rightarrow> string option \<Rightarrow> string \<Rightarrow> string option \<Rightarrow> string option \<Rightarrow>
   string \<Rightarrow> int \<Rightarrow> pyfloat \<Rightarrow> pyfloat \<Rightarrow> int \<Rightarrow> int option \<times> world" where
  "create_pass fault w0 beauty_title title other_titles connect_txt add_time uid latitude
     longitude height =
     (let w = log_call CreatePass w0 in
      case fault of
        Some e \<Rightarrow> (None, w)
      | None \<Rightarrow> (Some (passes_id_seq w),
          insert_pass beauty_title title other_titles connect_txt add_time uid latitude
            longitude height w))"

definition create_difficulty_level ::
  "db_fault option \<Rightarrow> world \<Rightarrow> int \<Rightarrow> string option \<Rightarrow> string option \<Rightarrow> string option \<Rightarrow>
   string option \<Rightarrow> bool \<times> world" where
  "create_difficulty_level fault w pid winter spring summer autumn =
     execute_query fault
       (\<lambda>w. w\<lparr>difficulty_levels := difficulty_levels w @ [\<lparr>dl_pass_id = pid,
          dl_winter = winter, dl_spring = spring, dl_summer = summer,
          dl_autumn = autumn\<rparr>]\<rparr>)
       (log_call CreateDifficultyLevel w)"

definition create_image ::
  "db_fault option \<Rightarrow> world \<Rightarrow> int \<Rightarrow> string option \<Rightarrow> byte list \<Rightarrow> bool \<times> world" where
  "create_image fault w pid title image_bytes =
     execute_query fault
       (\<lambda>w. w\<lparr>images := images w @ [\<lparr>im_pass_id = pid, im_title = title,
          im_data = image_bytes\<rparr>]\<rparr>)
       (log_call CreateImage w)"

section \<open>Base64\<close>

text \<open>
  \<open>base64.b64decode(s)\<close> with its default \<open>validate=False\<close>, as the code calls it,
  is the standard library's \<open>binascii.a2b_base64\<close> in its lenient mode (CPython 3.11
  and later): a string with a non-ASCII character is refused; characters outside the
  alphabet are discarded; the first pad sequence that completes a quad ends the
  input; a quad left incomplete at the end of the input is an error.
  On 6-bit and 4-bit operands that do not overlap, the shifts and the bitwise or of
  the C code are the multiplications and the additions written here.
\<close>

definition table_b2a_base64 :: "nat \<Rightarrow> char" where
  "table_b2a_base64 n =
     (if n < 26 then char_of (65 + n)
      else if n < 52 then char_of (71 + n)
      else if n < 62 then char_of (n - 4)
      else if n = 62 then CHR ''+'' else CHR ''/'')"

definition table_a2b_base64 :: "char \<Rightarrow> nat option" where
  "table_a2b_base64 c =
     (let k = (of_char c :: nat) in
      if 65 \<le> k \<and> k \<le> 90 then Some (k - 65)
      else if 97 \<le> k \<and> k \<le> 122 then Some (k - 71)
      else if 48 \<le> k \<and> k \<le> 57 then Some (k + 4)
      else if k = 43 then Some 62
      else if k = 47 then Some 63
      else None)"

fun a2b_base64 :: "nat \<Rightarrow> nat \<Rightarrow> nat \<Rightarrow> byte list \<Rightarrow> string \<Rightarrow> exn + byte list" where
  "a2b_base64 quad_pos leftchar pads out [] =
     (if quad_pos \<noteq> 0 then Inl Base64Error else Inr out)"
| "a2b_base64 quad_pos leftchar pads out (c # cs) =
     (if c = CHR ''='' then
        (if 2 \<le> quad_pos then
           (if 4 \<le> quad_pos + (pads + 1) then Inr out
            else a2b_base64 quad_pos leftchar (pads + 1) out cs)
         else a2b_base64 quad_pos leftchar pads out cs)
      else
        (case table_a2b_base64 c of
           None \<Rightarrow> a2b_base64 quad_pos leftchar pads out cs
         | Some this_ch \<Rightarrow>
             if quad_pos = 0 then a2b_base64 1 this_ch 0 out cs
             else if quad_pos = 1 then
               a2b_base64 2 (this_ch mod 16) 0
                 (out @ [of_nat (leftchar * 4 + this_ch div 16)]) cs
             else if quad_pos = 2 then
               a2b_base64 3 (this_ch mod 4) 0
                 (out @ [of_nat (leftchar * 16 + this_ch div 4)]) cs
             else a2b_base64 0 0 0 (out @ [of_nat (leftchar * 64 + this_ch)]) cs))"

definition b64decode :: "string \<Rightarrow> exn + byte list" where
  "b64decode s =
     (if \<exists>c \<in> set s. (128::nat) \<le> of_char c then Inl ValueError
      else a2b_base64 0 0 0 [] s)"

text \<open>
  \<open>base64.b64encode\<close>, which the repository does not call: the encoding the round
  trip of the spec compares with (three bytes to four characters, \<open>=\<close> padding).
\<close>

fun b64encode :: "byte list \<Rightarrow> string" where
  "b64encode [] = []"
| "b64encode [a] =
     [table_b2a_base64 (unat a div 4), table_b2a_base64 (unat a mod 4 * 16),
      CHR ''='', CHR ''='']"
| "b64encode [a, b] =
     [table_b2a_base64 (unat a div 4),
      table_b2a_base64 (unat a mod 4 * 16 + unat b div 16),
      table_b2a_base64 (unat b mod 16 * 4), CHR ''='']"
| "b64encode (a # b # c # bs) =
     [table_b2a_base64 (unat a div 4),
      table_b2a_base64 (unat a mod 4 * 16 + unat b div 16),
      table_b2a_base64 (unat b mod 16 * 4 + unat c div 64),
      table_b2a_base64 (unat c mod 64)] @ b64encode bs"

section \<open>submit_pass_data\<close>

text \<open>
  The messages of the source are Russian string constants; each is named here by
  what it says.
\<close>

datatype message =
    Msg_connection_error
  | Msg_missing_user_fields
  | Msg_user_creation_error
  | Msg_missing_required_fields
  | Msg_pass_creation_error
  | Msg_processing_error
  | Msg_internal_server_error

type_synonym outcome = "int \<times> message option \<times> int option"

definition the_str :: "pyval \<Rightarrow> string" where
  "the_str v = (case v of PyStr s \<Rightarrow> s | _ \<Rightarrow> [])"

text \<open>
  One iteration of \<open>for image in images\<close>: a decoding error is caught
  and the image skipped; an image above the limit is skipped; the result of
  \<open>create_image\<close> is dropped.
\<close>

definition py_b64decode :: "pyval \<Rightarrow> exn + byte list" where
  "py_b64decode v = (case v of PyStr s \<Rightarrow> b64decode s | _ \<Rightarrow> Inl TypeError)"

definition process_image :: "db_fault option \<Rightarrow> world \<Rightarrow> int \<Rightarrow> image_data \<Rightarrow> world" where
  "process_image fault w pid img =
     (let image_title = py_get_default (id_title img) [];
          image_data = py_get_default (id_data img) []
      in case py_b64decode image_data of
           Inl e \<Rightarrow> w
         | Inr image_bytes \<Rightarrow>
             if MAX_IMAGE_SIZE < length image_bytes then w
             else snd (create_image fault w pid (sql_text image_title) image_bytes))"

text \<open>The fault list gives one entry to each image, by position; none when it runs out.\<close>

fun process_images :: "db_fault option list \<Rightarrow> world \<Rightarrow> int \<Rightarrow> image_data list \<Rightarrow> world" where
  "process_images fs w pid [] = w"
| "process_images fs w pid (img # rest) =
     process_images (tl fs) (process_image (case fs of [] \<Rightarrow> None | f # _ \<Rightarrow> f) w pid img)
       pid rest"

text \<open>
  The body of the \<open>try\<close>, step by step. First the reads of the sub-objects:
  \<open>pass_data.get('user', {})\<close> and its like.
\<close>

definition get_user :: "pass_data \<Rightarrow> user_data" where
  "get_user pd = (case pd_user pd of None \<Rightarrow> empty_user | Some u \<Rightarrow> u)"

definition get_coords :: "pass_data \<Rightarrow> coords_data" where
  "get_coords pd = (case pd_coords pd of None \<Rightarrow> empty_coords | Some c \<Rightarrow> c)"

definition get_level :: "pass_data \<Rightarrow> level_data" where
  "get_level pd = (case pd_level pd of None \<Rightarrow> empty_level | Some l \<Rightarrow> l)"

definition get_images :: "pass_data \<Rightarrow> image_data list" where
  "get_images pd = (case pd_images pd of None \<Rightarrow> [] | Some l \<Rightarrow> l)"

text \<open>The list that \<open>all([email, phone, fam, name, otc])\<close> tests.\<close>

definition user_fields :: "pass_data \<Rightarrow> pyval list" where
  "user_fields pd =
     [py_get (ud_email (get_user pd)), py_get (ud_phone (get_user pd)),
      py_get (ud_fam (get_user pd)), py_get (ud_name (get_user pd)),
      py_get (ud_otc (get_user pd))]"

text \<open>The list that \<open>all([title, add_time])\<close> tests.\<close>

definition required_fields :: "pass_data \<Rightarrow> pyval list" where
  "required_fields pd = [py_get (pd_title pd), py_get (pd_add_time pd)]"

text \<open>\<open>user_id = self.create_user(email, phone, fam, name, otc)\<close>.\<close>

definition user_step :: "env \<Rightarrow> world \<Rightarrow> pass_data \<Rightarrow> int option \<times> world" where
  "user_step e w pd =
     create_user (user_insert_fault e) w
       (the_str (py_get (ud_email (get_user pd)))) (the_str (py_get (ud_phone (get_user pd))))
       (the_str (py_get (ud_fam (get_user pd)))) (the_str (py_get (ud_name (get_user pd))))
       (the_str (py_get (ud_otc (get_user pd))))"

text \<open>
  The three conversions \<open>float(...)\<close>, \<open>float(...)\<close>, \<open>int(...)\<close>, in this order; the
  first that raises ends the body.
\<close>

definition parse_coords :: "parsers \<Rightarrow> pass_data \<Rightarrow> exn + (pyfloat \<times> pyfloat \<times> int)" where
  "parse_coords lib pd =
     (case py_float lib (cd_latitude (get_coords pd)) of
        Inl x \<Rightarrow> Inl x
      | Inr latitude \<Rightarrow>
          (case py_float lib (cd_longitude (get_coords pd)) of
             Inl x \<Rightarrow> Inl x
           | Inr longitude \<Rightarrow>
               (case py_int lib (cd_height (get_coords pd)) of
                  Inl x \<Rightarrow> Inl x
                | Inr height \<Rightarrow> Inr (latitude, longitude, height))))"

text \<open>\<open>pass_id = self.create_pass(beauty_title, title, ..., height)\<close>.\<close>

definition pass_step ::
  "env \<Rightarrow> world \<Rightarrow> pass_data \<Rightarrow> int \<Rightarrow> pyfloat \<times> pyfloat \<times> int \<Rightarrow> int option \<times> world" where
  "pass_step e w pd uid c =
     create_pass (pass_insert_fault e) w
       (sql_text (py_get_default (pd_beauty_title pd) []))
       (the_str (py_get (pd_title pd)))
       (sql_text (py_get_default (pd_other_titles pd) []))
       (sql_text (py_get_default (pd_connect pd) []))
       (the_str (py_get (pd_add_time pd))) uid (fst c) (fst (snd c)) (snd (snd c))"

text \<open>\<open>self.create_difficulty_level(pass_id, ...)\<close>, its result dropped.\<close>

definition level_step :: "env \<Rightarrow> world \<Rightarrow> pass_data \<Rightarrow> int \<Rightarrow> world" where
  "level_step e w pd pid =
     snd (create_difficulty_level (difficulty_fault e) w pid
            (sql_text (py_get_default (ld_winter (get_level pd)) []))
            (sql_text (py_get_default (ld_spring (get_level pd)) []))
            (sql_text (py_get_default (ld_summer (get_level pd)) []))
            (sql_text (py_get_default (ld_autumn (get_level pd)) [])))"

text \<open>
  \<open>Inl\<close> is an exception that leaves the body, \<open>Inr\<close> a \<open>return\<close>. The numeric
  conversions come before the check of \<open>title\<close> and \<open>add_time\<close>, as in the source.
\<close>

definition try_body :: "parsers \<Rightarrow> env \<Rightarrow> world \<Rightarrow> pass_data \<Rightarrow> (exn + outcome) \<times> world" where
  "try_body lib e w pd =
     (if \<not> list_all truthy (user_fields pd)
      then (Inr (400, Some Msg_missing_user_fields, None), w)
      else
        (case user_step e w pd of
           (None, w1) \<Rightarrow> (Inr (500, Some Msg_user_creation_error, None), w1)
         | (Some uid, w1) \<Rightarrow>
             if uid = 0 then (Inr (500, Some Msg_user_creation_error, None), w1)
             else
               (case parse_coords lib pd of
                  Inl x \<Rightarrow> (Inl x, w1)
                | Inr c \<Rightarrow>
                    if \<not> list_all truthy (required_fields pd)
                    then (Inr (400, Some Msg_missing_required_fields, None), w1)
                    else
                      (case pass_step e w1 pd uid c of
                         (None, w2) \<Rightarrow> (Inr (500, Some Msg_pass_creation_error, None), w2)
                       | (Some pid, w2) \<Rightarrow>
                           if pid = 0
                           then (Inr (500, Some Msg_pass_creation_error, None), w2)
                           else (Inr (200, None, Some pid),
                                 process_images (image_faults e) (level_step e w2 pd pid) pid
                                   (get_images pd))))))"

text \<open>
  \<open>submit_pass_data\<close>: the connection is made before the \<open>try\<close>; \<open>except Exception\<close>
  turns an exception of the body into the 500 outcome; \<open>finally\<close> disconnects.
\<close>

definition submit_pass_data :: "parsers \<Rightarrow> env \<Rightarrow> world \<Rightarrow> pass_data \<Rightarrow> outcome \<times> world" where
  "submit_pass_data lib e w pd =
     (case connect (connect_fails e) w of
        (ok, w1) \<Rightarrow>
        if \<not> ok then ((500, Some Msg_connection_error, None), w1)
        else
          case try_body lib e w1 pd of
            (r, w2) \<Rightarrow>
            ((case r of
                Inl x \<Rightarrow> (500, Some Msg_processing_error, None)
              | Inr out \<Rightarrow> out),
             disconnect w2))"

section \<open>The endpoint\<close>

record submit_pass_response =
  resp_status :: int
  resp_message :: "message option"
  resp_id :: "int option"

text \<open>
  \<open>submit_data\<close> builds a fresh \<open>Database\<close> (no connection yet) and copies the
  outcome into the envelope. \<open>submit_pass_data\<close> catches every exception of its own
  body, so the handler of the endpoint has nothing left to catch here.
\<close>

definition submit_data :: "parsers \<Rightarrow> env \<Rightarrow> world \<Rightarrow> pass_data \<Rightarrow> submit_pass_response \<times> world" where
  "submit_data lib e w pd =
     (case submit_pass_data lib e (w\<lparr>connection := NoConnection\<rparr>) pd of
        ((status_code, msg, pid), w') \<Rightarrow>
          (\<lparr>resp_status = status_code, resp_message = msg, resp_id = pid\<rparr>, w'))"

section \<open>Auxiliary notions for the statements\<close>

text \<open>
  The shape of an outcome: the status is 200, 400 or 500; with 200 comes an id
  and no message; with 400 and 500 a message and no id.
\<close>

definition outcome_wf :: "int \<Rightarrow> message option \<Rightarrow> int option \<Rightarrow> bool" where
  "outcome_wf s m i \<longleftrightarrow>
     (s = 200 \<or> s = 400 \<or> s = 500) \<and>
     (s = 200 \<longleftrightarrow> i \<noteq> None \<and> m = None) \<and>
     (s = 400 \<or> s = 500 \<longrightarrow> i = None \<and> m \<noteq> None)"

text \<open>The calls a run has added to the log.\<close>

definition new_calls :: "world \<Rightarrow> world \<Rightarrow> call list" where
  "new_calls w w' = drop (length (calls w)) (calls w')"

text \<open>
  The row that one submitted image is expected to leave in the table, in the words of
  the spec: none when decoding fails, when the decoded payload exceeds the limit or
  when the insert fails; otherwise the decoded payload under the pass id.
\<close>

definition expected_image_row :: "db_fault option \<Rightarrow> int \<Rightarrow> image_data \<Rightarrow> image_row list" where
  "expected_image_row fault pid img =
     (case py_b64decode (py_get_default (id_data img) []) of
        Inl e \<Rightarrow> []
      | Inr bs \<Rightarrow>
          if MAX_IMAGE_SIZE < length bs \<or> fault \<noteq> None then []
          else [\<lparr>im_pass_id = pid, im_title = sql_text (py_get_default (id_title img) []),
                  im_data = bs\<rparr>])"

fun expected_images :: "db_fault option list \<Rightarrow> int \<Rightarrow> image_data list \<Rightarrow> image_row list" where
  "expected_images fs pid [] = []"
| "expected_images fs pid (img # rest) =
     expected_image_row (case fs of [] \<Rightarrow> None | f # _ \<Rightarrow> f) pid img
       @ expected_images (tl fs) pid rest"

definition user_email_of :: "pass_data \<Rightarrow> string" where
  "user_email_of pd = the_str (py_get (ud_email (get_user pd)))"

section \<open>Concrete data\<close>

text \<open>
  The example payload of \<open>models.py\<close> (its Cyrillic strings transliterated), a store
  with no rows whose identities start at 1, an environment without faults, and
  parsers that accept the three coordinate strings of the example.
\<close>

definition example_parsers :: parsers where
  "example_parsers =
     \<lparr>float_parses = (\<lambda>s. s = ''45.3842'' \<or> s = ''7.1525''),
      int_parse = (\<lambda>s. if s = ''1200'' then Some 1200 else None)\<rparr>"

definition empty_world :: world where
  "empty_world =
     \<lparr>users = [], passes = [], difficulty_levels = [], images = [], users_id_seq = 1,
      passes_id_seq = 1, connection = NoConnection, calls = []\<rparr>"

definition no_faults :: env where
  "no_faults =
     \<lparr>connect_fails = False, user_insert_fault = None, pass_insert_fault = None,
      difficulty_fault = None, image_faults = []\<rparr>"

definition example_user :: user_data where
  "example_user =
     \<lparr>ud_email = PyStr ''qwerty@mail.ru'', ud_phone = PyStr ''+7 555 55 55'',
      ud_fam = PyStr ''Pupkin'', ud_name = PyStr ''Vasiliy'', ud_otc = PyStr ''Ivanovich''\<rparr>"

definition example_pass_data :: pass_data where
  "example_pass_data =
     \<lparr>pd_beauty_title = PyStr ''per.'', pd_title = PyStr ''Pkhiya'',
      pd_other_titles = PyStr ''Triev'', pd_connect = PyStr [],
      pd_add_time = PyStr ''2021-09-22 13:18:13'',
      pd_user = Some example_user,
      pd_coords = Some \<lparr>cd_latitude = PyStr ''45.3842'', cd_longitude = PyStr ''7.1525'',
        cd_height = PyStr ''1200''\<rparr>,
      pd_level = Some \<lparr>ld_winter = PyStr [], ld_spring = PyStr ''1A'',
        ld_summer = PyStr ''1A'', ld_autumn = PyStr []\<rparr>,
      pd_images = Some []\<rparr>"

section \<open>Base64: decoding an encoding\<close>

lemma a2b_b2a: "n < 64 \<Longrightarrow> table_a2b_base64 (table_b2a_base64 n) = Some n"
  by (auto simp: table_a2b_base64_def table_b2a_base64_def Let_def)

lemma of_char_b2a:
  "n < 64 \<Longrightarrow> (of_char (table_b2a_base64 n) :: nat) =
     (if n < 26 then 65 + n else if n < 52 then 71 + n else if n < 62 then n - 4
      else if n = 62 then 43 else 47)"
  by (simp add: table_b2a_base64_def)

lemma b2a_not_pad: "n < 64 \<Longrightarrow> table_b2a_base64 n \<noteq> CHR ''=''"
proof
  assume n: "n < 64" and eq: "table_b2a_base64 n = CHR ''=''"
  from eq have "(of_char (table_b2a_base64 n) :: nat) = of_char CHR ''=''" by simp
  with n show False by (simp add: of_char_b2a split: if_splits)
qed

lemma b2a_ascii: "n < 64 \<Longrightarrow> (of_char (table_b2a_base64 n) :: nat) < 128"
  by (auto simp: of_char_b2a)


lemma a2b_quad:
  assumes "s0 < 64" "s1 < 64" "s2 < 64" "s3 < 64"
  shows "a2b_base64 0 l p out
           (table_b2a_base64 s0 # table_b2a_base64 s1 # table_b2a_base64 s2 #
            table_b2a_base64 s3 # rest) =
         a2b_base64 0 0 0
           (out @ [of_nat (s0 * 4 + s1 div 16), of_nat (s1 mod 16 * 16 + s2 div 4),
                   of_nat (s2 mod 4 * 64 + s3)]) rest"
  using assms by (simp add: a2b_b2a b2a_not_pad)

lemma a2b_pad1:
  assumes "s0 < 64" "s1 < 64" "s2 < 64"
  shows "a2b_base64 0 l p out
           [table_b2a_base64 s0, table_b2a_base64 s1, table_b2a_base64 s2, CHR ''=''] =
         Inr (out @ [of_nat (s0 * 4 + s1 div 16), of_nat (s1 mod 16 * 16 + s2 div 4)])"
  using assms by (simp add: a2b_b2a b2a_not_pad)

lemma a2b_pad2:
  assumes "s0 < 64" "s1 < 64"
  shows "a2b_base64 0 l p out
           [table_b2a_base64 s0, table_b2a_base64 s1, CHR ''='', CHR ''=''] =
         Inr (out @ [of_nat (s0 * 4 + s1 div 16)])"
  using assms by (simp add: a2b_b2a b2a_not_pad)

lemma unat_byte: "unat (a :: byte) < 256"
  using unsigned_less[of a, where 'a = nat] by simp

lemma byte0: 
  fixes A B :: nat assumes "B < 256"
  shows "A div 4 * 4 + (A mod 4 * 16 + B div 16) div 16 = A"
  using assms by (simp add: div_mult2_eq[symmetric])

lemma byte0': 
  fixes A :: nat 
  shows "A div 4 * 4 + (A mod 4 * 16) div 16 = A"
  by simp

lemma sext0: fixes A :: nat assumes "A < 256" shows "A div 4 < 64"
  using assms by simp
lemma sext1: fixes A B :: nat assumes "B < 256" shows "A mod 4 * 16 + B div 16 < 64"
proof -
  have "A mod 4 \<le> 3" by simp
  moreover have "B div 16 \<le> 15" using assms by simp
  ultimately show ?thesis by linarith
qed
lemma sext2: fixes A B :: nat assumes "B < 256" shows "A mod 16 * 4 + B div 64 < 64"
proof -
  have "A mod 16 \<le> 15" by simp
  moreover have "B div 64 \<le> 3" using assms by simp
  ultimately show ?thesis by linarith
qed

lemma byte2: 
  fixes B C :: nat assumes "C < 256"
  shows "(B mod 16 * 4 + C div 64) mod 4 * 64 + C mod 64 = C"
proof -
  have "C div 64 < 4" using assms by simp
  then have "(B mod 16 * 4 + C div 64) mod 4 = C div 64" by simp
  then show ?thesis by simp
qed

lemma byte1: 
  fixes A B C :: nat assumes "B < 256" "C < 256"
  shows "(A mod 4 * 16 + B div 16) mod 16 * 16 + (B mod 16 * 4 + C div 64) div 4 = B"
proof -
  have "B div 16 < 16" using assms by simp
  then have 1: "(A mod 4 * 16 + B div 16) mod 16 = B div 16" by simp
  have "C div 64 < 4" using assms by simp
  then have 2: "(B mod 16 * 4 + C div 64) div 4 = B mod 16" by simp
  show ?thesis unfolding 1 2 by simp
qed

lemma byte1': 
  fixes A B :: nat assumes "B < 256" 
  shows "(A mod 4 * 16 + B div 16) mod 16 * 16 + (B mod 16 * 4) div 4 = B"
proof -
  have "B div 16 < 16" using assms by simp
  then have 1: "(A mod 4 * 16 + B div 16) mod 16 = B div 16" by simp
  show ?thesis unfolding 1 by simp
qed

lemma a2b_b64encode: "a2b_base64 0 l p out (b64encode bs) = Inr (out @ bs)"
proof (induction bs arbitrary: l p out rule: b64encode.induct)
  case 1
  show ?case by simp
next
  case (2 a)
  have "a2b_base64 0 l p out (b64encode [a]) =
        Inr (out @ [of_nat (unat a div 4 * 4 + (unat a mod 4 * 16) div 16)])"
    using a2b_pad2[of "unat a div 4" "unat a mod 4 * 16" l p out] sext0[OF unat_byte[of a]]
    by simp
  then show ?case by (simp only: byte0') simp
next
  case (3 a b)
  have "a2b_base64 0 l p out (b64encode [a, b]) =
        Inr (out @ [of_nat (unat a div 4 * 4 + (unat a mod 4 * 16 + unat b div 16) div 16),
          of_nat ((unat a mod 4 * 16 + unat b div 16) mod 16 * 16 + (unat b mod 16 * 4) div 4)])"
    using a2b_pad1[of "unat a div 4" "unat a mod 4 * 16 + unat b div 16" "unat b mod 16 * 4" l p out]
      sext0[OF unat_byte[of a]] sext1[OF unat_byte[of b], of "unat a"]
    by simp
  then show ?case
    by (simp only: byte0[OF unat_byte[of b]] byte1'[OF unat_byte[of b]]) simp
next
  case (4 a b c bs)
  have "a2b_base64 0 l p out (b64encode (a # b # c # bs)) =
        a2b_base64 0 0 0 (out @ [of_nat (unat a div 4 * 4 + (unat a mod 4 * 16 + unat b div 16) div 16),
          of_nat ((unat a mod 4 * 16 + unat b div 16) mod 16 * 16 + (unat b mod 16 * 4 + unat c div 64) div 4),
          of_nat ((unat b mod 16 * 4 + unat c div 64) mod 4 * 64 + unat c mod 64)]) (b64encode bs)"
    using a2b_quad[of "unat a div 4" "unat a mod 4 * 16 + unat b div 16"
        "unat b mod 16 * 4 + unat c div 64" "unat c mod 64" l p out "b64encode bs"]
      sext0[OF unat_byte[of a]] sext1[OF unat_byte[of b], of "unat a"]
      sext2[OF unat_byte[of c], of "unat b"]
    by simp
  also have "\<dots> = a2b_base64 0 0 0 (out @ [a, b, c]) (b64encode bs)"
    by (simp only: byte0[OF unat_byte[of b]] byte1[OF unat_byte[of b] unat_byte[of c]]
        byte2[OF unat_byte[of c]]) simp
  also have "\<dots> = Inr ((out @ [a, b, c]) @ bs)" by (rule "4.IH")
  finally show ?case by simp
qed

lemma b64encode_ascii: "c \<in> set (b64encode bs) \<Longrightarrow> (of_char c :: nat) < 128"
proof (induction bs rule: b64encode.induct)
  case (4 a b c' bs)
  then show ?case
    using sext0[OF unat_byte[of a]] sext1[OF unat_byte[of b], of "unat a"]
      sext2[OF unat_byte[of c'], of "unat b"]
    by (auto simp: b2a_ascii)
next
  case (3 a b)
  then show ?case
    using sext0[OF unat_byte[of a]] sext1[OF unat_byte[of b], of "unat a"]
    by (auto simp: b2a_ascii)
next
  case (2 a)
  then show ?case using sext0[OF unat_byte[of a]] by (auto simp: b2a_ascii)
qed simp

lemma b64decode_b64encode: "b64decode (b64encode bs) = Inr bs"
proof -
  have "\<not> (\<exists>c \<in> set (b64encode bs). (128::nat) \<le> of_char c)"
    using b64encode_ascii[of _ bs] by (auto simp: not_le)
  then show ?thesis using a2b_b64encode[of 0 0 "[]" bs] by (simp add: b64decode_def)
qed

section \<open>Frame lemmas: what each method leaves unchanged\<close>

lemma log_call_simps [simp]:
  "users (log_call c w) = users w"
  "passes (log_call c w) = passes w"
  "difficulty_levels (log_call c w) = difficulty_levels w"
  "images (log_call c w) = images w"
  "users_id_seq (log_call c w) = users_id_seq w"
  "passes_id_seq (log_call c w) = passes_id_seq w"
  "connection (log_call c w) = connection w"
  "calls (log_call c w) = calls w @ [c]"
  by (simp_all add: log_call_def)

lemma new_calls_append: "calls w' = calls w @ cs \<Longrightarrow> new_calls w w' = cs"
  by (simp add: new_calls_def)

lemma create_user_frame [simp]:
  "passes (snd (create_user f w email phone fam name otc)) = passes w"
  "difficulty_levels (snd (create_user f w email phone fam name otc)) = difficulty_levels w"
  "images (snd (create_user f w email phone fam name otc)) = images w"
  "passes_id_seq (snd (create_user f w email phone fam name otc)) = passes_id_seq w"
  "connection (snd (create_user f w email phone fam name otc)) = connection w"
  "calls (snd (create_user f w email phone fam name otc)) = calls w @ [CreateUser]"
  by (simp_all add: create_user_def Let_def insert_user_def split: option.splits db_fault.splits)

lemma create_pass_frame [simp]:
  "users (snd (create_pass f w bt t ot ct at uid la lo h)) = users w"
  "difficulty_levels (snd (create_pass f w bt t ot ct at uid la lo h)) = difficulty_levels w"
  "images (snd (create_pass f w bt t ot ct at uid la lo h)) = images w"
  "users_id_seq (snd (create_pass f w bt t ot ct at uid la lo h)) = users_id_seq w"
  "connection (snd (create_pass f w bt t ot ct at uid la lo h)) = connection w"
  "calls (snd (create_pass f w bt t ot ct at uid la lo h)) = calls w @ [CreatePass]"
  by (simp_all add: create_pass_def Let_def insert_pass_def split: option.splits)

lemma create_pass_fst:
  "fst (create_pass f w bt t ot ct at uid la lo h) =
     (if f = None then Some (passes_id_seq w) else None)"
  by (simp add: create_pass_def Let_def split: option.splits)

lemma create_pass_passes:
  "passes (snd (create_pass f w bt t ot ct at uid la lo h)) =
     passes w @ (if f = None then
       [\<lparr>pass_id = passes_id_seq w, pass_beauty_title = bt, pass_title = t,
         pass_other_titles = ot, pass_connect = ct, pass_add_time = at, pass_user_id = uid,
         pass_latitude = la, pass_longitude = lo, pass_height = h, pass_status = ''new''\<rparr>]
       else [])"
  by (simp add: create_pass_def Let_def insert_pass_def split: option.splits)

lemma create_pass_seq:
  "passes_id_seq (snd (create_pass f w bt t ot ct at uid la lo h)) =
     (if f = None then passes_id_seq w + 1 else passes_id_seq w)"
  by (simp add: create_pass_def Let_def insert_pass_def split: option.splits)

lemma create_difficulty_level_frame [simp]:
  "users (snd (create_difficulty_level f w pid a b c d)) = users w"
  "passes (snd (create_difficulty_level f w pid a b c d)) = passes w"
  "images (snd (create_difficulty_level f w pid a b c d)) = images w"
  "users_id_seq (snd (create_difficulty_level f w pid a b c d)) = users_id_seq w"
  "passes_id_seq (snd (create_difficulty_level f w pid a b c d)) = passes_id_seq w"
  "connection (snd (create_difficulty_level f w pid a b c d)) = connection w"
  "calls (snd (create_difficulty_level f w pid a b c d)) = calls w @ [CreateDifficultyLevel]"
  by (simp_all add: create_difficulty_level_def execute_query_def split: option.splits)

lemma create_image_frame [simp]:
  "users (snd (create_image f w pid t bs)) = users w"
  "passes (snd (create_image f w pid t bs)) = passes w"
  "difficulty_levels (snd (create_image f w pid t bs)) = difficulty_levels w"
  "users_id_seq (snd (create_image f w pid t bs)) = users_id_seq w"
  "passes_id_seq (snd (create_image f w pid t bs)) = passes_id_seq w"
  "connection (snd (create_image f w pid t bs)) = connection w"
  "calls (snd (create_image f w pid t bs)) = calls w @ [CreateImage]"
  by (simp_all add: create_image_def execute_query_def split: option.splits)

lemma create_image_images:
  "images (snd (create_image f w pid t bs)) =
     images w @ (if f = None then [\<lparr>im_pass_id = pid, im_title = t, im_data = bs\<rparr>] else [])"
  by (simp add: create_image_def execute_query_def split: option.splits)

lemma process_image_frame [simp]:
  "users (process_image f w pid img) = users w"
  "passes (process_image f w pid img) = passes w"
  "difficulty_levels (process_image f w pid img) = difficulty_levels w"
  "users_id_seq (process_image f w pid img) = users_id_seq w"
  "passes_id_seq (process_image f w pid img) = passes_id_seq w"
  "connection (process_image f w pid img) = connection w"
  by (simp_all add: process_image_def Let_def split: sum.splits)

lemma process_image_images:
  "images (process_image f w pid img) = images w @ expected_image_row f pid img"
  by (auto simp: process_image_def expected_image_row_def Let_def create_image_images
      split: sum.splits)

lemma process_image_calls:
  "\<exists>cs. calls (process_image f w pid img) = calls w @ cs \<and> set cs \<subseteq> {CreateImage}"
  by (simp add: process_image_def Let_def split: sum.splits)

lemma process_images_frame [simp]:
  "users (process_images fs w pid imgs) = users w"
  "passes (process_images fs w pid imgs) = passes w"
  "difficulty_levels (process_images fs w pid imgs) = difficulty_levels w"
  "users_id_seq (process_images fs w pid imgs) = users_id_seq w"
  "passes_id_seq (process_images fs w pid imgs) = passes_id_seq w"
  "connection (process_images fs w pid imgs) = connection w"
  by (induction imgs arbitrary: fs w; simp)+

lemma process_images_images:
  "images (process_images fs w pid imgs) = images w @ expected_images fs pid imgs"
  by (induction imgs arbitrary: fs w) (simp_all add: process_image_images)

lemma process_images_calls:
  "\<exists>cs. calls (process_images fs w pid imgs) = calls w @ cs \<and> set cs \<subseteq> {CreateImage}"
proof (induction imgs arbitrary: fs w)
  case Nil
  show ?case by simp
next
  case (Cons img rest)
  let ?f = "case fs of [] \<Rightarrow> None | f # _ \<Rightarrow> f"
  obtain cs1 where 1: "calls (process_image ?f w pid img) = calls w @ cs1" "set cs1 \<subseteq> {CreateImage}"
    using process_image_calls by blast
  obtain cs2 where 2: "calls (process_images (tl fs) (process_image ?f w pid img) pid rest)
      = calls (process_image ?f w pid img) @ cs2" "set cs2 \<subseteq> {CreateImage}"
    using Cons.IH by blast
  from 1 2 have "calls (process_images fs w pid (img # rest)) = calls w @ (cs1 @ cs2)"
    "set (cs1 @ cs2) \<subseteq> {CreateImage}" by auto
  then show ?case by blast
qed


lemma connect_simps [simp]:
  "fst (connect b w) = (\<not> b)"
  "users (snd (connect b w)) = users w"
  "passes (snd (connect b w)) = passes w"
  "difficulty_levels (snd (connect b w)) = difficulty_levels w"
  "images (snd (connect b w)) = images w"
  "users_id_seq (snd (connect b w)) = users_id_seq w"
  "passes_id_seq (snd (connect b w)) = passes_id_seq w"
  "calls (snd (connect b w)) = calls w @ [Connect]"
  "connection (snd (connect b w)) = (if b then connection w else ConnOpen)"
  by (simp_all add: connect_def)

lemma disconnect_simps [simp]:
  "users (disconnect w) = users w"
  "passes (disconnect w) = passes w"
  "difficulty_levels (disconnect w) = difficulty_levels w"
  "images (disconnect w) = images w"
  "users_id_seq (disconnect w) = users_id_seq w"
  "passes_id_seq (disconnect w) = passes_id_seq w"
  "calls (disconnect w) = calls w @ (if connection w \<noteq> NoConnection then [Close] else [])"
  "connection (disconnect w) = (if connection w \<noteq> NoConnection then ConnClosed else NoConnection)"
  by (simp_all add: disconnect_def)

lemma submit_pass_data_unfold:
  "submit_pass_data lib e w pd =
     (if connect_fails e then ((500, Some Msg_connection_error, None), log_call Connect w)
      else ((case fst (try_body lib e (snd (connect False w)) pd) of
               Inl x \<Rightarrow> (500, Some Msg_processing_error, None) | Inr out \<Rightarrow> out),
            disconnect (snd (try_body lib e (snd (connect False w)) pd))))"
  by (simp add: submit_pass_data_def connect_def split: prod.splits)

lemma user_step_frame [simp]:
  "passes (snd (user_step e w pd)) = passes w"
  "difficulty_levels (snd (user_step e w pd)) = difficulty_levels w"
  "images (snd (user_step e w pd)) = images w"
  "passes_id_seq (snd (user_step e w pd)) = passes_id_seq w"
  "connection (snd (user_step e w pd)) = connection w"
  "calls (snd (user_step e w pd)) = calls w @ [CreateUser]"
  by (simp_all add: user_step_def)

lemma pass_step_frame [simp]:
  "users (snd (pass_step e w pd uid c)) = users w"
  "difficulty_levels (snd (pass_step e w pd uid c)) = difficulty_levels w"
  "images (snd (pass_step e w pd uid c)) = images w"
  "users_id_seq (snd (pass_step e w pd uid c)) = users_id_seq w"
  "connection (snd (pass_step e w pd uid c)) = connection w"
  "calls (snd (pass_step e w pd uid c)) = calls w @ [CreatePass]"
  by (simp_all add: pass_step_def)

lemma level_step_frame [simp]:
  "users (level_step e w pd pid) = users w"
  "passes (level_step e w pd pid) = passes w"
  "images (level_step e w pd pid) = images w"
  "users_id_seq (level_step e w pd pid) = users_id_seq w"
  "passes_id_seq (level_step e w pd pid) = passes_id_seq w"
  "connection (level_step e w pd pid) = connection w"
  "calls (level_step e w pd pid) = calls w @ [CreateDifficultyLevel]"
  by (simp_all add: level_step_def)

lemmas try_body_beta = try_body_def[unfolded case_prod_beta]

lemma try_body_connection [simp]:
  "connection (snd (try_body lib e w pd)) = connection w"
  by (simp add: try_body_beta split: option.splits sum.splits)

lemma process_images_no_close:
  "\<exists>cs. calls (process_images fs w pid imgs) = calls w @ cs \<and> Close \<notin> set cs"
  using process_images_calls[of fs w pid imgs] by auto

lemma try_body_calls_no_close:
  "\<exists>cs. calls (snd (try_body lib e w pd)) = calls w @ cs \<and> Close \<notin> set cs"
proof -
  have *: "\<And>w0 pid. \<exists>cs. calls (process_images (image_faults e) w0 pid (get_images pd))
      = calls w0 @ cs \<and> Close \<notin> set cs"
    by (rule process_images_no_close)
  {
    fix w2 :: world and pid
    assume w2: "calls w2 = calls w @ [CreateUser, CreatePass]"
    obtain cs where "calls (process_images (image_faults e) (level_step e w2 pd pid) pid (get_images pd))
      = calls (level_step e w2 pd pid) @ cs" "Close \<notin> set cs" using * by blast
    then have "\<exists>cs. calls (process_images (image_faults e) (level_step e w2 pd pid) pid (get_images pd))
      = calls w @ cs \<and> Close \<notin> set cs" using w2 by simp
  } note fin = this
  show ?thesis
    by (simp add: try_body_beta fin split: option.splits sum.splits)
qed



lemma try_body_calls_prefix:
  "calls (snd (try_body lib e w pd)) = calls w @ new_calls w (snd (try_body lib e w pd))"
  using try_body_calls_no_close[of lib e w pd] by (auto simp: new_calls_def)

lemma try_body_new_calls_no_close:
  "Close \<notin> set (new_calls w (snd (try_body lib e w pd)))"
  using try_body_calls_no_close[of lib e w pd] by (auto simp: new_calls_def)

lemma try_body_outcome_wf:
  "case fst (try_body lib e w pd) of Inl x \<Rightarrow> True | Inr (s, m, i) \<Rightarrow> outcome_wf s m i"
  by (simp add: try_body_beta outcome_wf_def split: option.splits sum.splits)

lemma try_body_reaches_level:
  "CreateDifficultyLevel \<in> set (new_calls w (snd (try_body lib e w pd))) \<longleftrightarrow>
     (\<exists>pid. fst (try_body lib e w pd) = Inr (200, None, Some pid))"
proof -
  {
    fix w2 :: world and pid
    assume w2: "calls w2 = calls w @ [CreateUser, CreatePass]"
    obtain cs where "calls (process_images (image_faults e) (level_step e w2 pd pid) pid (get_images pd))
      = calls (level_step e w2 pd pid) @ cs" using process_images_calls by blast
    then have "calls (process_images (image_faults e) (level_step e w2 pd pid) pid (get_images pd))
      = calls w @ ([CreateUser, CreatePass, CreateDifficultyLevel] @ cs)" using w2 by simp
    then have "CreateDifficultyLevel \<in> set (drop (length (calls w)) (calls
        (process_images (image_faults e) (level_step e w2 pd pid) pid (get_images pd))))"
      by simp
  } note fin = this
  show ?thesis
    by (simp add: try_body_beta fin new_calls_def split: option.splits sum.splits)
qed

lemma submit_fst:
  "fst (submit_pass_data lib e w pd) =
     (if connect_fails e then (500, Some Msg_connection_error, None)
      else (case fst (try_body lib e (snd (connect False w)) pd) of
              Inl x \<Rightarrow> (500, Some Msg_processing_error, None) | Inr out \<Rightarrow> out))"
  by (simp add: submit_pass_data_unfold)

lemma submit_snd:
  "snd (submit_pass_data lib e w pd) =
     (if connect_fails e then log_call Connect w
      else disconnect (snd (try_body lib e (snd (connect False w)) pd)))"
  by (simp add: submit_pass_data_unfold)

lemma submit_new_calls:
  "new_calls w (snd (submit_pass_data lib e w pd)) =
     (if connect_fails e then [Connect]
      else Connect # new_calls (snd (connect False w))
             (snd (try_body lib e (snd (connect False w)) pd)) @ [Close])"
proof (cases "connect_fails e")
  case True
  then show ?thesis by (simp add: submit_snd new_calls_def)
next
  case False
  let ?w0 = "snd (connect False w)"
  let ?T = "snd (try_body lib e ?w0 pd)"
  obtain cs where cs: "calls ?T = calls ?w0 @ cs"
    using try_body_calls_no_close[of lib e ?w0 pd] by blast
  then have 1: "new_calls ?w0 ?T = cs" by (rule new_calls_append)
  have "calls (disconnect ?T) = calls w @ (Connect # cs @ [Close])"
    using cs by simp
  then have "new_calls w (disconnect ?T) = Connect # cs @ [Close]" by (rule new_calls_append)
  then show ?thesis using False 1 by (simp add: submit_snd)
qed

section \<open>A run on the example\<close>

lemma example_run:
  "submit_pass_data example_parsers no_faults empty_world example_pass_data =
     ((200, None, Some 1),
      \<lparr>users = [\<lparr>user_id = 1, user_email = ''qwerty@mail.ru'',
          user_phone = ''+7 555 55 55'', user_fam = ''Pupkin'', user_name = ''Vasiliy'',
          user_otc = ''Ivanovich''\<rparr>],
       passes = [\<lparr>pass_id = 1, pass_beauty_title = Some ''per.'', pass_title = ''Pkhiya'',
          pass_other_titles = Some ''Triev'', pass_connect = Some [],
          pass_add_time = ''2021-09-22 13:18:13'', pass_user_id = 1,
          pass_latitude = Float_of_str ''45.3842'', pass_longitude = Float_of_str ''7.1525'',
          pass_height = 1200, pass_status = ''new''\<rparr>],
       difficulty_levels = [\<lparr>dl_pass_id = 1, dl_winter = Some [], dl_spring = Some ''1A'',
          dl_summer = Some ''1A'', dl_autumn = Some []\<rparr>],
       images = [], users_id_seq = 2, passes_id_seq = 2, connection = ConnClosed,
       calls = [Connect, CreateUser, CreatePass, CreateDifficultyLevel, Close]\<rparr>)"
  by code_simp

section \<open>The status triple\<close>

text \<open>
  Claim C2. For every submission, every environment and every store, the outcome of
  \<open>submit_pass_data\<close> and the envelope that \<open>submit_data\<close> returns have a status that
  is 200, 400 or 500; the status is 200 exactly when the id is set and the message is
  none; with 400 or 500 the id is none and the message is set.
\<close>

theorem outcome_is_well_formed:
  "(case fst (submit_pass_data lib e w pd) of (s, m, i) \<Rightarrow> outcome_wf s m i) \<and>
   outcome_wf (resp_status (fst (submit_data lib e w pd)))
     (resp_message (fst (submit_data lib e w pd))) (resp_id (fst (submit_data lib e w pd)))"
proof -
  have 1: "case fst (submit_pass_data lib e w pd) of (s, m, i) \<Rightarrow> outcome_wf s m i" for w
    using try_body_outcome_wf[of lib e "snd (connect False w)" pd]
    by (auto simp: submit_fst outcome_wf_def split: sum.splits)
  have 2: "fst (submit_data lib e w pd) =
      (case fst (submit_pass_data lib e (w\<lparr>connection := NoConnection\<rparr>) pd) of
         (s, m, i) \<Rightarrow> \<lparr>resp_status = s, resp_message = m, resp_id = i\<rparr>)"
    by (simp add: submit_data_def split: prod.splits)
  show ?thesis
    using 1[of w] 1[of "w\<lparr>connection := NoConnection\<rparr>"] unfolding 2
    by (auto split: prod.splits)
qed

theorem outcome_is_well_formed_witness:
  "fst (submit_pass_data example_parsers no_faults empty_world example_pass_data)
     = (200, None, Some 1) \<and> outcome_wf 200 None (Some 1)"
  using outcome_is_well_formed[of example_parsers no_faults empty_world example_pass_data]
  by (simp add: example_run)

section \<open>The valid submission\<close>

text \<open>
  Claim C1. Take a submission whose five user fields are all non-empty, whose title and
  add_time are non-empty, whose coordinates convert, and whose image list is empty.
  When the connection is acquired, \<open>create_user\<close> returns an identity that is not zero
  and \<open>create_pass\<close> returns an identity, in a store that hands out positive identities
  for passes, \<open>submit_pass_data\<close> returns \<open>(200, None, pass_id)\<close>, the identity is
  positive, and the run has added one row to the passes: it carries this identity, the
  status \<open>new\<close>, the submitted title and the submitted add_time.
\<close>

theorem valid_submission_creates_pass:
  assumes "connect (connect_fails e) w = (True, w0)"
    and "list_all truthy (user_fields pd)"
    and "list_all truthy (required_fields pd)"
    and "parse_coords lib pd = Inr c"
    and "get_images pd = []"
    and "user_step e w0 pd = (Some uid, w1)" and "uid \<noteq> 0"
    and "pass_step e w1 pd uid c = (Some pid, w2)"
    and "0 < passes_id_seq w"
  shows "fst (submit_pass_data lib e w pd) = (200, None, Some pid) \<and> 0 < pid \<and>
         (\<exists>row. passes (snd (submit_pass_data lib e w pd)) = passes w @ [row] \<and>
            pass_id row = pid \<and> pass_status row = ''new'' \<and>
            pd_title pd = PyStr (pass_title row) \<and>
            pd_add_time pd = PyStr (pass_add_time row))"
proof -
  have cf: "\<not> connect_fails e" and w0: "w0 = snd (connect False w)"
    using assms(1) by (auto simp: connect_def split: if_splits)
  have us: "fst (user_step e w0 pd) = Some uid" "snd (user_step e w0 pd) = w1"
    using assms(6) by simp_all
  have ps: "fst (pass_step e w1 pd uid c) = Some pid" "snd (pass_step e w1 pd uid c) = w2"
    using assms(8) by simp_all
  have seq: "passes_id_seq w1 = passes_id_seq w" "passes w1 = passes w"
    using us(2)[symmetric] by (simp_all add: w0)
  have nf: "pass_insert_fault e = None" and pid: "pid = passes_id_seq w"
    using ps(1) seq by (auto simp: pass_step_def create_pass_fst split: if_splits)
  have pos: "0 < pid" using pid assms(9) by simp
  have tb: "try_body lib e w0 pd =
      (Inr (200, None, Some pid), process_images (image_faults e) (level_step e w2 pd pid) pid [])"
    using assms(2,3,4,5,7) us ps pos by (simp add: try_body_beta)
  obtain t where t: "pd_title pd = PyStr t"
    using assms(3) by (cases "pd_title pd") (simp_all add: required_fields_def py_get_def truthy_def)
  obtain a where a: "pd_add_time pd = PyStr a"
    using assms(3) by (cases "pd_add_time pd") (simp_all add: required_fields_def py_get_def truthy_def)
  have "passes w2 = passes w @
      [\<lparr>pass_id = pid, pass_beauty_title = sql_text (py_get_default (pd_beauty_title pd) []),
        pass_title = t, pass_other_titles = sql_text (py_get_default (pd_other_titles pd) []),
        pass_connect = sql_text (py_get_default (pd_connect pd) []),
        pass_add_time = a, pass_user_id = uid, pass_latitude = fst c,
        pass_longitude = fst (snd c), pass_height = snd (snd c), pass_status = ''new''\<rparr>]"
    using ps(2)[symmetric] nf seq pid t a
    by (simp add: pass_step_def create_pass_passes py_get_def the_str_def)
  then have "\<exists>row. passes (snd (submit_pass_data lib e w pd)) = passes w @ [row] \<and>
            pass_id row = pid \<and> pass_status row = ''new'' \<and>
            pd_title pd = PyStr (pass_title row) \<and>
            pd_add_time pd = PyStr (pass_add_time row)"
    using cf tb t a by (simp add: submit_snd w0[symmetric])
  then show ?thesis using cf tb pos by (simp add: submit_fst w0[symmetric])
qed

theorem valid_submission_creates_pass_witness:
  "connect (connect_fails no_faults) empty_world = (True, snd (connect False empty_world)) \<and>
   list_all truthy (user_fields example_pass_data) \<and>
   list_all truthy (required_fields example_pass_data) \<and>
   parse_coords example_parsers example_pass_data =
     Inr (Float_of_str ''45.3842'', Float_of_str ''7.1525'', 1200) \<and>
   get_images example_pass_data = [] \<and>
   fst (user_step no_faults (snd (connect False empty_world)) example_pass_data) = Some 1 \<and>
   0 < passes_id_seq empty_world \<and>
   fst (submit_pass_data example_parsers no_faults empty_world example_pass_data)
     = (200, None, Some 1) \<and>
   (\<exists>row. passes (snd (submit_pass_data example_parsers no_faults empty_world
        example_pass_data)) = passes empty_world @ [row] \<and>
      pass_id row = 1 \<and> pass_status row = ''new'' \<and>
      pd_title example_pass_data = PyStr (pass_title row) \<and>
      pd_add_time example_pass_data = PyStr (pass_add_time row))"
proof -
  let ?w0 = "snd (connect False empty_world)"
  let ?w1 = "snd (user_step no_faults ?w0 example_pass_data)"
  let ?c = "(Float_of_str ''45.3842'', Float_of_str ''7.1525'', 1200::int)"
  let ?w2 = "snd (pass_step no_faults ?w1 example_pass_data 1 ?c)"
  have h1: "connect (connect_fails no_faults) empty_world = (True, ?w0)" by code_simp
  have h2: "list_all truthy (user_fields example_pass_data)" by code_simp
  have h3: "list_all truthy (required_fields example_pass_data)" by code_simp
  have h4: "parse_coords example_parsers example_pass_data = Inr ?c" by code_simp
  have h5: "get_images example_pass_data = []" by code_simp
  have u: "fst (user_step no_faults ?w0 example_pass_data) = Some 1" by code_simp
  then have h6: "user_step no_faults ?w0 example_pass_data = (Some 1, ?w1)"
    by (simp add: prod_eq_iff)
  have h7: "(1::int) \<noteq> 0" by simp
  have "fst (pass_step no_faults ?w1 example_pass_data 1 ?c) = Some 1" by code_simp
  then have h8: "pass_step no_faults ?w1 example_pass_data 1 ?c = (Some 1, ?w2)"
    by (simp add: prod_eq_iff)
  have h9: "0 < passes_id_seq empty_world" by code_simp
  from valid_submission_creates_pass[OF h1 h2 h3 h4 h5 h6 h7 h8 h9] h1 h2 h3 h4 h5 u h9
  show ?thesis by simp
qed

section \<open>Missing user fields\<close>

text \<open>
  Claim C5, as stated, fails where the connection cannot be acquired: the code tries to
  connect before it looks at the user fields, and a submission without a user then gets
  status 500 with the message of the connection error.
\<close>

theorem missing_user_fields_counterexample:
  "\<not> list_all truthy (user_fields (example_pass_data\<lparr>pd_user := None\<rparr>)) \<and>
   fst (submit_pass_data example_parsers (no_faults\<lparr>connect_fails := True\<rparr>) empty_world
          (example_pass_data\<lparr>pd_user := None\<rparr>))
     = (500, Some Msg_connection_error, None)"
  by code_simp

text \<open>
  Claim C5, amended. When the connection is acquired and one of the five user fields is
  missing or empty, \<open>submit_pass_data\<close> returns 400 with the message about the user
  fields and no id; the four tables are unchanged; the only calls of the run are the
  connect and the close, so \<open>create_user\<close> is not called.
\<close>

theorem missing_user_fields_rejected:
  assumes "\<not> connect_fails e" and "\<not> list_all truthy (user_fields pd)"
  shows "fst (submit_pass_data lib e w pd) = (400, Some Msg_missing_user_fields, None) \<and>
         users (snd (submit_pass_data lib e w pd)) = users w \<and>
         passes (snd (submit_pass_data lib e w pd)) = passes w \<and>
         difficulty_levels (snd (submit_pass_data lib e w pd)) = difficulty_levels w \<and>
         images (snd (submit_pass_data lib e w pd)) = images w \<and>
         new_calls w (snd (submit_pass_data lib e w pd)) = [Connect, Close]"
proof -
  have tb: "try_body lib e w0 pd = (Inr (400, Some Msg_missing_user_fields, None), w0)" for w0
    using assms(2) by (simp add: try_body_def)
  have same: "new_calls w0 w0 = []" for w0 by (simp add: new_calls_def)
  have "new_calls w (snd (submit_pass_data lib e w pd)) = [Connect, Close]"
    using assms(1) by (simp add: submit_new_calls tb same)
  then show ?thesis
    using assms(1) by (simp add: submit_fst submit_snd tb)
qed

theorem missing_user_fields_rejected_witness:
  "\<not> connect_fails no_faults \<and>
   \<not> list_all truthy (user_fields (example_pass_data\<lparr>pd_user := Some (example_user\<lparr>ud_phone := PyStr []\<rparr>)\<rparr>)) \<and>
   fst (submit_pass_data example_parsers no_faults empty_world
     (example_pass_data\<lparr>pd_user := Some (example_user\<lparr>ud_phone := PyStr []\<rparr>)\<rparr>))
     = (400, Some Msg_missing_user_fields, None) \<and>
   new_calls empty_world (snd (submit_pass_data example_parsers no_faults empty_world
     (example_pass_data\<lparr>pd_user := Some (example_user\<lparr>ud_phone := PyStr []\<rparr>)\<rparr>)))
     = [Connect, Close]"
proof -
  have h1: "\<not> connect_fails no_faults" by (simp add: no_faults_def)
  have h2: "\<not> list_all truthy (user_fields
      (example_pass_data\<lparr>pd_user := Some (example_user\<lparr>ud_phone := PyStr []\<rparr>)\<rparr>))"
    by (simp add: user_fields_def get_user_def example_user_def py_get_def truthy_def)
  from missing_user_fields_rejected[OF h1 h2, of example_parsers empty_world] h1 h2
  show ?thesis by simp
qed

section \<open>A failing insert of the difficulty levels\<close>

lemma create_image_upd:
  "snd (create_image f (w\<lparr>difficulty_levels := d\<rparr>) pid t bs) =
     (snd (create_image f w pid t bs))\<lparr>difficulty_levels := d\<rparr>"
  by (simp add: create_image_def execute_query_def log_call_def split: option.splits)

lemma process_image_upd:
  "process_image f (w\<lparr>difficulty_levels := d\<rparr>) pid img =
     (process_image f w pid img)\<lparr>difficulty_levels := d\<rparr>"
  by (simp add: process_image_def Let_def create_image_upd split: sum.splits)

lemma process_images_upd:
  "process_images fs (w\<lparr>difficulty_levels := d\<rparr>) pid imgs =
     (process_images fs w pid imgs)\<lparr>difficulty_levels := d\<rparr>"
  by (induction imgs arbitrary: fs w) (simp_all add: process_image_upd)

lemma level_step_fault:
  "level_step (e\<lparr>difficulty_fault := f\<rparr>) w pd pid =
     (level_step e w pd pid)\<lparr>difficulty_levels :=
        difficulty_levels (level_step (e\<lparr>difficulty_fault := f\<rparr>) w pd pid)\<rparr>"
  by (simp add: level_step_def create_difficulty_level_def execute_query_def log_call_def
      split: option.splits)

lemma steps_difficulty_fault [simp]:
  "user_step (e\<lparr>difficulty_fault := f\<rparr>) w pd = user_step e w pd"
  "pass_step (e\<lparr>difficulty_fault := f\<rparr>) w pd uid c = pass_step e w pd uid c"
  by (simp_all add: user_step_def pass_step_def)

lemma try_body_difficulty_fault_fst:
  "fst (try_body lib (e\<lparr>difficulty_fault := f\<rparr>) w pd) = fst (try_body lib e w pd)"
  by (simp add: try_body_beta split: option.splits sum.splits)

lemma try_body_difficulty_fault_snd:
  "snd (try_body lib (e\<lparr>difficulty_fault := f\<rparr>) w pd) =
     (snd (try_body lib e w pd))\<lparr>difficulty_levels :=
        difficulty_levels (snd (try_body lib (e\<lparr>difficulty_fault := f\<rparr>) w pd))\<rparr>"
proof -
  have fin: "process_images fs (level_step (e\<lparr>difficulty_fault := f\<rparr>) w2 pd pid) pid imgs =
      (process_images fs (level_step e w2 pd pid) pid imgs)\<lparr>difficulty_levels :=
        difficulty_levels (level_step (e\<lparr>difficulty_fault := f\<rparr>) w2 pd pid)\<rparr>"
    for fs w2 pid imgs
    by (subst level_step_fault, subst process_images_upd) simp
  show ?thesis
    by (simp add: try_body_beta fin split: option.splits sum.splits)
qed

text \<open>
  Claim C6. When a run calls \<open>create_difficulty_level\<close> (the pass row exists by then),
  there is one pass id such that, whatever the insert of the difficulty levels does
  (it succeeds, or it fails with either class of database error), \<open>submit_pass_data\<close>
  returns \<open>(200, None, pass_id)\<close>; the calls of the run and the rows of users, passes
  and images are the same in every case.
\<close>

theorem difficulty_failure_not_surfaced:
  assumes "CreateDifficultyLevel \<in> set (new_calls w (snd (submit_pass_data lib e w pd)))"
  shows "\<exists>pid. \<forall>f.
     fst (submit_pass_data lib (e\<lparr>difficulty_fault := f\<rparr>) w pd) = (200, None, Some pid) \<and>
     new_calls w (snd (submit_pass_data lib (e\<lparr>difficulty_fault := f\<rparr>) w pd))
       = new_calls w (snd (submit_pass_data lib e w pd)) \<and>
     users (snd (submit_pass_data lib (e\<lparr>difficulty_fault := f\<rparr>) w pd))
       = users (snd (submit_pass_data lib e w pd)) \<and>
     passes (snd (submit_pass_data lib (e\<lparr>difficulty_fault := f\<rparr>) w pd))
       = passes (snd (submit_pass_data lib e w pd)) \<and>
     images (snd (submit_pass_data lib (e\<lparr>difficulty_fault := f\<rparr>) w pd))
       = images (snd (submit_pass_data lib e w pd))"
proof -
  let ?w0 = "snd (connect False w)"
  have cf: "\<not> connect_fails e"
    using assms by (auto simp: submit_new_calls split: if_splits)
  then have "CreateDifficultyLevel \<in> set (new_calls ?w0 (snd (try_body lib e ?w0 pd)))"
    using assms by (simp add: submit_new_calls)
  then obtain pid where pid: "fst (try_body lib e ?w0 pd) = Inr (200, None, Some pid)"
    using try_body_reaches_level[of ?w0 lib e pd] by blast
  have snd_eq: "snd (submit_pass_data lib (e\<lparr>difficulty_fault := f\<rparr>) w pd) =
      (snd (submit_pass_data lib e w pd))\<lparr>difficulty_levels :=
         difficulty_levels (snd (try_body lib (e\<lparr>difficulty_fault := f\<rparr>) ?w0 pd))\<rparr>" for f
    using cf
    by (simp add: submit_snd, subst try_body_difficulty_fault_snd)
       (simp add: disconnect_def log_call_def)
  have "fst (submit_pass_data lib (e\<lparr>difficulty_fault := f\<rparr>) w pd) = (200, None, Some pid)" for f
    using cf pid by (simp add: submit_fst try_body_difficulty_fault_fst)
  moreover have "new_calls w (snd (submit_pass_data lib (e\<lparr>difficulty_fault := f\<rparr>) w pd))
       = new_calls w (snd (submit_pass_data lib e w pd))" for f
    by (subst snd_eq) (simp add: new_calls_def)
  moreover have "users (snd (submit_pass_data lib (e\<lparr>difficulty_fault := f\<rparr>) w pd))
       = users (snd (submit_pass_data lib e w pd))" for f
    by (subst snd_eq) simp
  moreover have "passes (snd (submit_pass_data lib (e\<lparr>difficulty_fault := f\<rparr>) w pd))
       = passes (snd (submit_pass_data lib e w pd))" for f
    by (subst snd_eq) simp
  moreover have "images (snd (submit_pass_data lib (e\<lparr>difficulty_fault := f\<rparr>) w pd))
       = images (snd (submit_pass_data lib e w pd))" for f
    by (subst snd_eq) simp
  ultimately show ?thesis by blast
qed

theorem difficulty_failure_not_surfaced_witness:
  "CreateDifficultyLevel \<in> set (new_calls empty_world
     (snd (submit_pass_data example_parsers no_faults empty_world example_pass_data))) \<and>
   fst (submit_pass_data example_parsers (no_faults\<lparr>difficulty_fault := Some DatabaseError\<rparr>)
     empty_world example_pass_data) = (200, None, Some 1) \<and>
   difficulty_levels (snd (submit_pass_data example_parsers
     (no_faults\<lparr>difficulty_fault := Some DatabaseError\<rparr>) empty_world example_pass_data)) = []"
proof -
  have h: "CreateDifficultyLevel \<in> set (new_calls empty_world
     (snd (submit_pass_data example_parsers no_faults empty_world example_pass_data)))"
    by code_simp
  have r: "fst (submit_pass_data example_parsers (no_faults\<lparr>difficulty_fault := Some DatabaseError\<rparr>)
     empty_world example_pass_data) = (200, None, Some 1)"
    by code_simp
  have d: "difficulty_levels (snd (submit_pass_data example_parsers
     (no_faults\<lparr>difficulty_fault := Some DatabaseError\<rparr>) empty_world example_pass_data)) = []"
    by code_simp
  from difficulty_failure_not_surfaced[OF h] h r d show ?thesis by simp
qed

section \<open>The release of the connection\<close>

text \<open>
  Claim C7, as stated, fails on the early return for a failed connection: that return
  comes before the \<open>try\<close>, so \<open>disconnect\<close> is not reached and the connection is
  closed zero times, not once.
\<close>

theorem connection_release_counterexample:
  "count_list (new_calls empty_world
     (snd (submit_pass_data example_parsers (no_faults\<lparr>connect_fails := True\<rparr>) empty_world
        example_pass_data))) Close = 0 \<and>
   fst (submit_pass_data example_parsers (no_faults\<lparr>connect_fails := True\<rparr>) empty_world
        example_pass_data) = (500, Some Msg_connection_error, None)"
  by code_simp

text \<open>
  Claim C7, amended. On every path of a run that acquired the connection (normal end,
  early return with 400 or 500, exception caught by the handler) the connection is
  closed exactly once, the close is the last call, and the connection is closed
  afterwards. When the connection cannot be acquired, the run returns 500 after the
  connect alone: there is nothing to close and nothing is closed.
\<close>

theorem connection_released_once:
  "(\<not> connect_fails e \<longrightarrow>
      count_list (new_calls w (snd (submit_pass_data lib e w pd))) Close = 1 \<and>
      last (calls (snd (submit_pass_data lib e w pd))) = Close \<and>
      connection (snd (submit_pass_data lib e w pd)) = ConnClosed) \<and>
   (connect_fails e \<longrightarrow>
      fst (submit_pass_data lib e w pd) = (500, Some Msg_connection_error, None) \<and>
      new_calls w (snd (submit_pass_data lib e w pd)) = [Connect] \<and>
      connection (snd (submit_pass_data lib e w pd)) = connection w)"
proof -
  let ?w' = "snd (submit_pass_data lib e w pd)"
  have nc: "count_list (new_calls w0 (snd (try_body lib e w0 pd))) Close = 0" for w0
    using try_body_new_calls_no_close[of w0 lib e pd] by (simp add: count_list_0_iff)
  have 1: "\<not> connect_fails e \<Longrightarrow> count_list (new_calls w ?w') Close = 1"
    by (simp add: submit_new_calls nc)
  have 2: "\<not> connect_fails e \<Longrightarrow> last (calls ?w') = Close"
    by (simp add: submit_snd)
  have 3: "\<not> connect_fails e \<Longrightarrow> connection ?w' = ConnClosed"
    by (simp add: submit_snd)
  have 4: "connect_fails e \<Longrightarrow> fst (submit_pass_data lib e w pd)
      = (500, Some Msg_connection_error, None)"
    by (simp add: submit_fst)
  have 5: "connect_fails e \<Longrightarrow> new_calls w ?w' = [Connect]"
    by (simp add: submit_new_calls)
  have 6: "connect_fails e \<Longrightarrow> connection ?w' = connection w"
    by (simp add: submit_snd)
  from 1 2 3 4 5 6 show ?thesis by blast
qed

theorem connection_released_once_witness:
  "\<not> connect_fails no_faults \<and>
   count_list (new_calls empty_world
     (snd (submit_pass_data example_parsers no_faults empty_world example_pass_data))) Close = 1 \<and>
   connection (snd (submit_pass_data example_parsers no_faults empty_world example_pass_data))
     = ConnClosed"
  using connection_released_once[of no_faults empty_world example_parsers example_pass_data]
  by (simp add: no_faults_def)

section \<open>An integrity error without an existing row\<close>

text \<open>
  Claim C10. When the connection is acquired, the user fields are present, the insert
  of the user fails with an integrity error and the lookup by email finds no row,
  \<open>create_user\<close> returns \<open>None\<close> and \<open>submit_pass_data\<close> returns 500 with the message
  about creating the user and no id.
\<close>

theorem integrity_error_without_row:
  assumes "\<not> connect_fails e" and "list_all truthy (user_fields pd)"
    and "user_insert_fault e = Some IntegrityError"
    and "select_user_id w (user_email_of pd) = None"
  shows "fst (user_step e (snd (connect False w)) pd) = None \<and>
         fst (submit_pass_data lib e w pd) = (500, Some Msg_user_creation_error, None)"
proof -
  let ?w0 = "snd (connect False w)"
  have "select_user_id (log_call CreateUser ?w0) (user_email_of pd) = None"
    using assms(4) by (simp add: select_user_id_def)
  then have 1: "fst (user_step e ?w0 pd) = None"
    using assms(3) by (simp add: user_step_def create_user_def user_email_of_def)
  then have "fst (try_body lib e ?w0 pd) = Inr (500, Some Msg_user_creation_error, None)"
    using assms(2) by (simp add: try_body_beta)
  then show ?thesis using 1 assms(1) by (simp add: submit_fst)
qed

theorem integrity_error_without_row_witness:
  "\<not> connect_fails (no_faults\<lparr>user_insert_fault := Some IntegrityError\<rparr>) \<and>
   list_all truthy (user_fields example_pass_data) \<and>
   select_user_id empty_world (user_email_of example_pass_data) = None \<and>
   fst (submit_pass_data example_parsers (no_faults\<lparr>user_insert_fault := Some IntegrityError\<rparr>)
     empty_world example_pass_data) = (500, Some Msg_user_creation_error, None)"
proof -
  have h1: "\<not> connect_fails (no_faults\<lparr>user_insert_fault := Some IntegrityError\<rparr>)"
    by (simp add: no_faults_def)
  have h2: "list_all truthy (user_fields example_pass_data)" by code_simp
  have h3: "user_insert_fault (no_faults\<lparr>user_insert_fault := Some IntegrityError\<rparr>)
      = Some IntegrityError" by simp
  have h4: "select_user_id empty_world (user_email_of example_pass_data) = None" by code_simp
  from integrity_error_without_row[OF h1 h2 h3 h4, of example_parsers] h1 h2 h4
  show ?thesis by simp
qed

end
